theory Spec2Isabelle
  imports Complex_Main "HOL-Library.Log_Nat" "HOL-Library.Multiset"
begin

section \<open>Python values used by the shop views\<close>

text \<open>
  The exceptions that the modelled views can raise. \<open>Http404\<close> comes from
  \<^verbatim>\<open>get_object_or_404\<close>, \<open>DoesNotExist\<close> from \<^verbatim>\<open>Products.objects.get\<close>,
  \<open>ValueError\<close> from \<^verbatim>\<open>int(...)\<close> on text that spells no integer, \<open>OverflowError\<close>
  from multiplying a float by an integer too large for a float and from writing an
  integer that the integer column of the database cannot hold, \<open>KeyError\<close> from a
  dictionary subscript, \<open>ValidationError\<close> and \<open>InvalidOperation\<close> from saving a float
  that a decimal column cannot hold.
\<close>

datatype error =
  Http404 | DoesNotExist | ValueError | OverflowError | KeyError | ValidationError
| InvalidOperation

subsection \<open>Floats\<close>

text \<open>
  Python's \<^verbatim>\<open>float\<close> is IEEE 754 binary64. A finite float is represented by the rational
  number it denotes (the two zeros are identified: they compare equal in Python);
  every arithmetic result is the exact result rounded to the nearest binary64 value,
  ties to the even significand, overflowing to an infinity.
\<close>

datatype float64 = Finite rat | PInf | NInf | NaN

definition pow2 :: "int \<Rightarrow> rat" where
  "pow2 e = (if 0 \<le> e then 2 ^ nat e else 1 / 2 ^ nat (- e))"

definition floor_log2 :: "rat \<Rightarrow> int" where
  \<comment> \<open>for \<open>a > 0\<close>: the \<open>k\<close> with \<open>2 ^ k \<le> a < 2 ^ (k + 1)\<close>\<close>
  "floor_log2 a =
     (let (p, d) = quotient_of a; k = bitlen p - bitlen d
      in if pow2 k \<le> a then k else k - 1)"

definition round_half_even :: "rat \<Rightarrow> int" where
  "round_half_even x =
     (let f = \<lfloor>x\<rfloor>; r = x - of_int f
      in if r < 1 / 2 then f else if 1 / 2 < r then f + 1
         else if even f then f else f + 1)"

definition round_float :: "rat \<Rightarrow> float64" where
  \<comment> \<open>53 significant bits, exponents from \<open>- 1022\<close> (below: subnormal spacing) to \<open>1023\<close>\<close>
  "round_float q =
     (if q = 0 then Finite 0
      else let a = \<bar>q\<bar>;
               e = max (floor_log2 a) (- 1022);
               u = pow2 (e - 52);
               n = round_half_even (a / u)
           in if 1024 \<le> e \<or> (e = 1023 \<and> n = 2 ^ 53)
              then (if 0 < q then PInf else NInf)
              else Finite (if 0 < q then of_int n * u else - (of_int n * u)))"

fun fmul :: "float64 \<Rightarrow> float64 \<Rightarrow> float64" where
  "fmul NaN y = NaN"
| "fmul x NaN = NaN"
| "fmul (Finite a) (Finite b) = round_float (a * b)"
| "fmul (Finite a) PInf = (if a = 0 then NaN else if 0 < a then PInf else NInf)"
| "fmul (Finite a) NInf = (if a = 0 then NaN else if 0 < a then NInf else PInf)"
| "fmul PInf (Finite b) = (if b = 0 then NaN else if 0 < b then PInf else NInf)"
| "fmul NInf (Finite b) = (if b = 0 then NaN else if 0 < b then NInf else PInf)"
| "fmul PInf PInf = PInf"
| "fmul PInf NInf = NInf"
| "fmul NInf PInf = NInf"
| "fmul NInf NInf = PInf"

fun fadd :: "float64 \<Rightarrow> float64 \<Rightarrow> float64" where
  "fadd NaN y = NaN"
| "fadd x NaN = NaN"
| "fadd (Finite a) (Finite b) = round_float (a + b)"
| "fadd (Finite a) PInf = PInf"
| "fadd (Finite a) NInf = NInf"
| "fadd PInf (Finite b) = PInf"
| "fadd NInf (Finite b) = NInf"
| "fadd PInf PInf = PInf"
| "fadd PInf NInf = NaN"
| "fadd NInf PInf = NaN"
| "fadd NInf NInf = NInf"

definition float_of_int :: "int \<Rightarrow> error + float64" where
  \<comment> \<open>the conversion of the integer operand in \<^verbatim>\<open>float * int\<close>: correctly rounded,
      \<^verbatim>\<open>OverflowError\<close> when the integer is too large\<close>
  "float_of_int n =
     (case round_float (of_int n) of Finite r \<Rightarrow> Inr (Finite r) | _ \<Rightarrow> Inl OverflowError)"

subsection \<open>Decimals and request parameters\<close>

text \<open>
  \<^verbatim>\<open>Products.price\<close> is a \<^verbatim>\<open>DecimalField(max_digits=10, decimal_places=2)\<close>: a number of
  hundredths. The cart keeps \<^verbatim>\<open>str(product.price)\<close>, the decimal's digits as text, and
  reads it back with \<^verbatim>\<open>float(...)\<close>, which returns the float nearest to the number the
  text spells. The text is represented by the decimal it spells.
\<close>

datatype decimal = Hundredths int

fun decimal_value :: "decimal \<Rightarrow> rat" where
  "decimal_value (Hundredths c) = of_int c / 100"

definition float_of_decimal :: "decimal \<Rightarrow> float64" where
  "float_of_decimal d = round_float (decimal_value d)"

text \<open>
  \<^verbatim>\<open>Order.total_amount\<close> is a \<^verbatim>\<open>DecimalField(max_digits=10, decimal_places=2)\<close> as well,
  and \<^verbatim>\<open>checkout\<close> assigns a float to it. When the row is saved, the field turns the
  float into a decimal of ten significant digits
  (\<^verbatim>\<open>Context(prec=10).create_decimal_from_float\<close>, ties to even), refusing an infinity
  or a NaN with \<open>ValidationError\<close>, and then quantizes the decimal to two places under the
  same precision, which raises \<open>InvalidOperation\<close> when the result needs more than ten
  digits.
\<close>

definition pow10 :: "int \<Rightarrow> rat" where
  "pow10 e = (if 0 \<le> e then 10 ^ nat e else 1 / 10 ^ nat (- e))"

function digits :: "int \<Rightarrow> int" where
  \<comment> \<open>the number of decimal digits of a positive integer\<close>
  "digits n = (if n \<le> 0 then 0 else digits (n div 10) + 1)"
  by pat_completeness auto
termination
  by (relation "measure nat") auto

declare digits.simps [simp del]

definition floor_log10 :: "rat \<Rightarrow> int" where
  \<comment> \<open>for \<open>a > 0\<close>: the \<open>k\<close> with \<open>10 ^ k \<le> a < 10 ^ (k + 1)\<close>\<close>
  "floor_log10 a =
     (let (p, d) = quotient_of a; k = digits p - digits d
      in if pow10 k \<le> a then k else k - 1)"

definition round_digits :: "rat \<Rightarrow> rat" where
  \<comment> \<open>\<^verbatim>\<open>Context(prec=10).create_decimal_from_float\<close>: ten significant digits, ties to even\<close>
  "round_digits q =
     (if q = 0 then 0
      else let a = \<bar>q\<bar>;
               g = pow10 (floor_log10 a - 9);
               n = round_half_even (a / g)
           in if 0 < q then of_int n * g else - (of_int n * g))"

definition quantize :: "rat \<Rightarrow> error + decimal" where
  \<comment> \<open>\<^verbatim>\<open>quantize(Decimal('0.01'))\<close> under ten digits of precision\<close>
  "quantize q =
     (let c = round_half_even (q * 100)
      in if 10 ^ 10 \<le> \<bar>c\<bar> then Inl InvalidOperation else Inr (Hundredths c))"

definition decimal_field :: "float64 \<Rightarrow> error + decimal" where
  \<comment> \<open>the value that a \<^verbatim>\<open>DecimalField(max_digits=10, decimal_places=2)\<close> stores for a float\<close>
  "decimal_field x =
     (case x of Finite q \<Rightarrow> quantize (round_digits q) | _ \<Rightarrow> Inl ValidationError)"

text \<open>
  A query parameter read with \<^verbatim>\<open>int(request.GET.get('quantity', 1))\<close>: the parameter is
  missing, or its text spells an integer, or \<^verbatim>\<open>int\<close> raises \<^verbatim>\<open>ValueError\<close> on it.
\<close>

datatype query_int = Missing | Spells int | Not_an_integer

fun int_param :: "query_int \<Rightarrow> int \<Rightarrow> error + int" where
  "int_param Missing d = Inr d"
| "int_param (Spells n) d = Inr n"
| "int_param Not_an_integer d = Inl ValueError"

section \<open>The data model\<close>

text \<open>
  \<^verbatim>\<open>models.py\<close>: the rows of \<^verbatim>\<open>Products\<close>, \<^verbatim>\<open>Customer\<close> and \<^verbatim>\<open>Order\<close>, as the database
  holds them: \<open>product_stock\<close> is an integer, \<open>total_amount\<close> a decimal with two places,
  \<open>order_products\<close> the set of product ids of the many-to-many relation.

  The settings module is not among the sources; the database is SQLite, the one of a
  new Django project. Its integer column holds a signed integer of 64 bits, and the
  driver raises \<open>OverflowError\<close> for a Python integer outside that range; its text columns
  take a text of any length (\<^verbatim>\<open>max_length\<close> is not enforced by the database), so the
  text fields of a customer are saved as they are. Every statement is committed as it
  is executed: no view opens a transaction.
\<close>

definition integer_column :: "int \<Rightarrow> bool" where
  "integer_column n = (- (2 ^ 63) \<le> n \<and> n < 2 ^ 63)"

record product =
  product_id :: int
  product_name :: string
  product_price :: decimal
  product_description :: string
  product_stock :: int
  product_category :: "int option"

record customer =
  customer_id :: int
  customer_user :: int
  phone :: string
  address :: string
  city :: string
  state :: string
  postal_code :: string
  country :: string

record order =
  order_id :: int
  order_customer :: int
  order_products :: "int set"
  total_amount :: decimal
  status :: string
  created_at :: nat

definition status_choices :: "(string \<times> string) list" where
  "status_choices =
     [(''pending'', ''Pending''), (''processing'', ''Processing''), (''shipped'', ''Shipped''),
      (''delivered'', ''Delivered''), (''cancelled'', ''Cancelled'')]"

text \<open>
  A cart entry is the dictionary \<^verbatim>\<open>{'name': ..., 'price': ..., 'quantity': ...}\<close>; the key
  \<^verbatim>\<open>'total'\<close> is absent until \<^verbatim>\<open>cart_view\<close> writes it. The cart is a Python dictionary
  from \<^verbatim>\<open>str(id)\<close> to entries, in insertion order: an association list whose keys are the
  product ids that the key texts spell.
\<close>

record item =
  item_name :: string
  item_price :: decimal
  item_quantity :: int
  item_total :: "float64 option"

type_synonym cart = "(int \<times> item) list"

text \<open>
  \<^verbatim>\<open>request.session\<close>: the key \<^verbatim>\<open>'cart'\<close> may be absent; \<open>modified\<close> is the flag
  that the views set "to save changes".
\<close>

record session =
  session_cart :: "cart option"
  modified :: bool

datatype level = SUCCESS | WARNING

text \<open>
  What a view can read and change: the three tables with the counters that give the
  next \<^verbatim>\<open>AutoField\<close> id, the session of the request, and the messages queued for the
  user.
\<close>

record world =
  products :: "product list"
  customers :: "customer list"
  customer_seq :: int
  orders :: "order list"
  order_seq :: int
  session :: session
  messages :: "(level \<times> string) list"

text \<open>
  What the views read of a request: the method, the logged-in user (\<open>None\<close> for an
  anonymous request), the query parameters \<^verbatim>\<open>quantity\<close> and \<^verbatim>\<open>status\<close>, the form
  fields, and the time of the request, which \<^verbatim>\<open>auto_now_add\<close> writes into \<open>created_at\<close>.
\<close>

record request =
  request_method :: string
  user :: "int option"
  GET_quantity :: query_int
  GET_status :: "string option"
  POST :: "string \<Rightarrow> string option"
  now :: nat

text \<open>
  What a view answers: a redirect to a named route (with the order id for
  \<^verbatim>\<open>order_confirmation\<close>), the redirect to the login page that \<^verbatim>\<open>login_required\<close>
  gives, or a template with its context.
\<close>

datatype page =
  Cart_context "(int \<times> item) list" float64
| Checkout_context float64 cart "customer option"
| Order_context order
| Order_list_context "order list" "string option" "(string \<times> string) list"

datatype response =
  Redirect string "int option"
| Redirect_to_login
| Render string page

type_synonym 'a view = "world \<Rightarrow> (error + 'a) \<times> world"

section \<open>Queries\<close>

definition get_object_or_404 :: "('a \<Rightarrow> int) \<Rightarrow> 'a list \<Rightarrow> int \<Rightarrow> error + 'a" where
  "get_object_or_404 pk rows i =
     (case find (\<lambda>r. pk r = i) rows of None \<Rightarrow> Inl Http404 | Some r \<Rightarrow> Inr r)"

definition objects_get :: "('a \<Rightarrow> int) \<Rightarrow> 'a list \<Rightarrow> int \<Rightarrow> error + 'a" where
  "objects_get pk rows i =
     (case find (\<lambda>r. pk r = i) rows of None \<Rightarrow> Inl DoesNotExist | Some r \<Rightarrow> Inr r)"

definition save :: "('a \<Rightarrow> int) \<Rightarrow> 'a \<Rightarrow> 'a list \<Rightarrow> 'a list" where
  \<comment> \<open>\<^verbatim>\<open>Model.save()\<close>: update the row with this primary key, insert when there is none\<close>
  "save pk r rows =
     (if find (\<lambda>x. pk x = pk r) rows = None then rows @ [r]
      else map (\<lambda>x. if pk x = pk r then r else x) rows)"

section \<open>The cart views\<close>

definition in_cart :: "int \<Rightarrow> cart \<Rightarrow> bool" where
  "in_cart k c = (map_of c k \<noteq> None)"

definition add_quantity :: "int \<Rightarrow> int \<Rightarrow> cart \<Rightarrow> cart" where
  \<comment> \<open>\<^verbatim>\<open>cart[str(id)]['quantity'] += quantity\<close>\<close>
  "add_quantity k q c =
     map (\<lambda>(k', it). if k' = k then (k', it\<lparr>item_quantity := item_quantity it + q\<rparr>)
                      else (k', it)) c"

definition del_key :: "int \<Rightarrow> cart \<Rightarrow> cart" where
  \<comment> \<open>\<^verbatim>\<open>del cart[str(id)]\<close>\<close>
  "del_key k c = filter (\<lambda>(k', it). k' \<noteq> k) c"

definition add_to_cart :: "request \<Rightarrow> int \<Rightarrow> response view" where
  "add_to_cart request i w =
     (let w1 = (if session_cart (session w) = None
                then w\<lparr>session := \<lparr>session_cart = Some [], modified = True\<rparr>\<rparr> else w);
          cart = (case session_cart (session w1) of None \<Rightarrow> [] | Some c \<Rightarrow> c)
      in case get_object_or_404 product_id (products w1) i of
           Inl e \<Rightarrow> (Inl e, w1)
         | Inr product \<Rightarrow>
             (case int_param (GET_quantity request) 1 of
                Inl e \<Rightarrow> (Inl e, w1)
              | Inr quantity \<Rightarrow>
                  let cart' =
                        (if in_cart i cart then add_quantity i quantity cart
                         else cart @ [(i, \<lparr>item_name = product_name product,
                                            item_price = product_price product,
                                            item_quantity = quantity,
                                            item_total = None\<rparr>)])
                  in (Inr (Redirect ''cart'' None),
                      w1\<lparr>session := \<lparr>session_cart = Some cart', modified = True\<rparr>,
                         messages := messages w1 @
                           [(SUCCESS, product_name product @ '' added to cart!'')]\<rparr>)))"

definition price_times_quantity :: "item \<Rightarrow> error + float64" where
  \<comment> \<open>\<^verbatim>\<open>float(item['price']) * item['quantity']\<close>\<close>
  "price_times_quantity it =
     (case float_of_int (item_quantity it) of
        Inl e \<Rightarrow> Inl e
      | Inr q \<Rightarrow> Inr (fmul (float_of_decimal (item_price it)) q))"

text \<open>
  The loop of \<^verbatim>\<open>cart_view\<close>. \<^verbatim>\<open>item\<close> is the entry of the session's own dictionary, so
  \<^verbatim>\<open>item['total'] = ...\<close> writes into the session: the function returns the cart as the
  loop leaves it, also when an entry raises.
\<close>

fun cart_view_loop ::
  "cart \<Rightarrow> float64 \<Rightarrow> (int \<times> item) list \<Rightarrow> cart \<times> (error + (int \<times> item) list \<times> float64)" where
  "cart_view_loop [] tot items = ([], Inr (items, tot))"
| "cart_view_loop ((key, it) # rest) tot items =
     (case price_times_quantity it of
        Inl e \<Rightarrow> ((key, it) # rest, Inl e)
      | Inr t \<Rightarrow>
          let it' = it\<lparr>item_total := Some t\<rparr>;
              (rest', r) = cart_view_loop rest (fadd tot t) (items @ [(key, it')])
          in ((key, it') # rest', r))"

definition cart_view :: "request \<Rightarrow> response view" where
  "cart_view request w =
     (case session_cart (session w) of
        None \<Rightarrow> (Inr (Render ''shop/cart.html'' (Cart_context [] (Finite 0))), w)
      | Some cart \<Rightarrow>
          let (cart', r) = cart_view_loop cart (Finite 0) [];
              w' = w\<lparr>session := (session w)\<lparr>session_cart := Some cart'\<rparr>\<rparr>
          in case r of
               Inl e \<Rightarrow> (Inl e, w')
             | Inr (items, tot) \<Rightarrow>
                 (Inr (Render ''shop/cart.html'' (Cart_context items tot)), w'))"

definition remove_from_cart :: "request \<Rightarrow> int \<Rightarrow> response view" where
  "remove_from_cart request i w =
     (case session_cart (session w) of
        None \<Rightarrow> (Inr (Redirect ''cart'' None), w)
      | Some cart \<Rightarrow>
          (case map_of cart i of
             None \<Rightarrow> (Inr (Redirect ''cart'' None), w)
           | Some it \<Rightarrow>
               (Inr (Redirect ''cart'' None),
                w\<lparr>session := \<lparr>session_cart = Some (del_key i cart), modified = True\<rparr>,
                  messages := messages w @
                    [(SUCCESS, item_name it @ '' removed from cart!'')]\<rparr>)))"

section \<open>Checkout and orders\<close>

fun checkout_total :: "cart \<Rightarrow> float64 \<Rightarrow> error + float64" where
  \<comment> \<open>\<^verbatim>\<open>for product_id, item in cart.items(): total += float(item['price']) * item['quantity']\<close>\<close>
  "checkout_total [] tot = Inr tot"
| "checkout_total ((key, it) # rest) tot =
     (case price_times_quantity it of
        Inl e \<Rightarrow> Inl e
      | Inr t \<Rightarrow> checkout_total rest (fadd tot t))"

definition customer_profile :: "customer list \<Rightarrow> int \<Rightarrow> customer option" where
  \<comment> \<open>\<^verbatim>\<open>request.user.customer_profile\<close>, the one-to-one row of the user\<close>
  "customer_profile rows uid = find (\<lambda>c. customer_user c = uid) rows"

definition customer_create :: "int \<Rightarrow> world \<Rightarrow> customer \<times> world" where
  \<comment> \<open>\<^verbatim>\<open>Customer.objects.create(user=request.user)\<close>: every text field blank\<close>
  "customer_create uid w =
     (let c = \<lparr>customer_id = customer_seq w, customer_user = uid, phone = [], address = [],
                city = [], state = [], postal_code = [], country = []\<rparr>
      in (c, w\<lparr>customers := customers w @ [c], customer_seq := customer_seq w + 1\<rparr>))"

definition post_get :: "request \<Rightarrow> string \<Rightarrow> string \<Rightarrow> string" where
  \<comment> \<open>\<^verbatim>\<open>request.POST.get(key, default)\<close>\<close>
  "post_get request key d = (case POST request key of None \<Rightarrow> d | Some v \<Rightarrow> v)"

definition products_add :: "int \<Rightarrow> int \<Rightarrow> order list \<Rightarrow> order list" where
  \<comment> \<open>\<^verbatim>\<open>order.products.add(product)\<close>: a row of the many-to-many table\<close>
  "products_add oid pid rows =
     map (\<lambda>r. if order_id r = oid then r\<lparr>order_products := insert pid (order_products r)\<rparr>
                else r) rows"

text \<open>
  The second loop of \<^verbatim>\<open>checkout\<close>, over \<^verbatim>\<open>cart.keys()\<close>. Every write is committed as it
  is made: the function returns the world as the loop leaves it, also when
  \<^verbatim>\<open>Products.objects.get\<close> raises, or when \<^verbatim>\<open>product.save()\<close> raises because the new
  stock is outside the integer column; the product is attached to the order by then,
  and its row is not written.
\<close>

fun reduce_stock :: "int \<Rightarrow> cart \<Rightarrow> int list \<Rightarrow> world \<Rightarrow> (error + unit) \<times> world" where
  "reduce_stock oid cart [] w = (Inr (), w)"
| "reduce_stock oid cart (key # keys) w =
     (case objects_get product_id (products w) key of
        Inl e \<Rightarrow> (Inl e, w)
      | Inr product \<Rightarrow>
          let w1 = w\<lparr>orders := products_add oid (product_id product) (orders w)\<rparr>
          in case map_of cart key of
               None \<Rightarrow> (Inl KeyError, w1)
             | Some it \<Rightarrow>
                 let product' = product\<lparr>product_stock := product_stock product - item_quantity it\<rparr>
                 in if integer_column (product_stock product')
                    then reduce_stock oid cart keys
                           (w1\<lparr>products := save product_id product' (products w1)\<rparr>)
                    else (Inl OverflowError, w1))"

text \<open>
  The branch \<^verbatim>\<open>if request.method == 'POST'\<close>. \<^verbatim>\<open>Order.objects.create\<close> stores the float
  \<^verbatim>\<open>total\<close> in the decimal column \<open>total_amount\<close>; when the column refuses it, the
  exception leaves the view after the customer has been saved and before any order is
  written.
\<close>

definition place_order :: "int \<Rightarrow> request \<Rightarrow> cart \<Rightarrow> float64 \<Rightarrow> response view" where
  "place_order uid request cart tot w =
     (let (customer0, w1) =
            (case customer_profile (customers w) uid of
               Some c \<Rightarrow> (c, w)
             | None \<Rightarrow> customer_create uid w);
          customer = customer0
            \<lparr>phone := post_get request ''phone'' (phone customer0),
             address := post_get request ''address'' (address customer0),
             city := post_get request ''city'' (city customer0),
             state := post_get request ''state'' (state customer0),
             postal_code := post_get request ''postal_code'' (postal_code customer0),
             country := post_get request ''country'' (country customer0)\<rparr>;
          w2 = w1\<lparr>customers := save customer_id customer (customers w1)\<rparr>
      in case decimal_field tot of
           Inl e \<Rightarrow> (Inl e, w2)
         | Inr amount \<Rightarrow>
             let order = \<lparr>order_id = order_seq w2, order_customer = customer_id customer,
                           order_products = {}, total_amount = amount, status = ''pending'',
                           created_at = now request\<rparr>;
                 w3 = w2\<lparr>orders := orders w2 @ [order], order_seq := order_seq w2 + 1\<rparr>
             in case reduce_stock (order_id order) cart (map fst cart) w3 of
                  (Inl e, w4) \<Rightarrow> (Inl e, w4)
                | (Inr u, w4) \<Rightarrow>
                    (Inr (Redirect ''order_confirmation'' (Some (order_id order))),
                     w4\<lparr>session := \<lparr>session_cart = Some [], modified = True\<rparr>,
                        messages := messages w4 @ [(SUCCESS, ''Order placed successfully!'')]\<rparr>))"

definition checkout_body :: "int \<Rightarrow> request \<Rightarrow> response view" where
  \<comment> \<open>the function under the decorator, for the logged-in user with id \<open>uid\<close>\<close>
  "checkout_body uid request w =
     (let cart = (case session_cart (session w) of None \<Rightarrow> [] | Some c \<Rightarrow> c)
      in if cart = []
         then (Inr (Redirect ''home'' None),
               w\<lparr>messages := messages w @ [(WARNING, ''Your cart is empty!'')]\<rparr>)
         else case checkout_total cart (Finite 0) of
                Inl e \<Rightarrow> (Inl e, w)
              | Inr tot \<Rightarrow>
                  if request_method request = ''POST'' then place_order uid request cart tot w
                  else (Inr (Render ''shop/checkout.html''
                          (Checkout_context tot cart (customer_profile (customers w) uid))), w))"

definition login_required :: "request \<Rightarrow> (int \<Rightarrow> response view) \<Rightarrow> response view" where
  \<comment> \<open>\<^verbatim>\<open>@login_required(login_url='login')\<close>: an anonymous request never reaches the view\<close>
  "login_required request v w =
     (case user request of None \<Rightarrow> (Inr Redirect_to_login, w) | Some uid \<Rightarrow> v uid w)"

definition checkout :: "request \<Rightarrow> response view" where
  "checkout request = login_required request (\<lambda>uid. checkout_body uid request)"

definition order_confirmation :: "request \<Rightarrow> int \<Rightarrow> response view" where
  "order_confirmation request oid w =
     (case get_object_or_404 order_id (orders w) oid of
        Inl e \<Rightarrow> (Inl e, w)
      | Inr order \<Rightarrow> (Inr (Render ''shop/order_confirmation.html'' (Order_context order)), w))"

definition order_by_created_at_desc :: "order list \<Rightarrow> order list" where
  \<comment> \<open>\<^verbatim>\<open>.order_by('-created_at')\<close>; rows created at the same instant keep their table order\<close>
  "order_by_created_at_desc rows = sort_key (\<lambda>r. - int (created_at r)) rows"

definition order_list :: "request \<Rightarrow> response view" where
  "order_list request w =
     (let rows = order_by_created_at_desc (orders w);
          status_filter = GET_status request;
          rows' = (case status_filter of
                     None \<Rightarrow> rows
                   | Some s \<Rightarrow> if s = [] then rows else filter (\<lambda>r. status r = s) rows)
      in (Inr (Render ''shop/order/order_list.html''
                 (Order_list_context rows' status_filter status_choices)), w))"

section \<open>Notions used to state the properties\<close>

text \<open>The cart of a session; a session without the key has no entries.\<close>

definition cart_of :: "world \<Rightarrow> cart" where
  "cart_of w = (case session_cart (session w) of None \<Rightarrow> [] | Some c \<Rightarrow> c)"

text \<open>The entry that \<^verbatim>\<open>add_to_cart\<close> writes for a product that is not in the cart.\<close>

definition snapshot :: "product \<Rightarrow> int \<Rightarrow> item" where
  "snapshot p q = \<lparr>item_name = product_name p, item_price = product_price p,
                    item_quantity = q, item_total = None\<rparr>"

text \<open>
  A sequence of cart requests from one browser: each request finds the session as the
  previous one left it. (The only change that a failing request makes is to give a
  session without a cart the empty one, and every view treats the two alike.)
\<close>

datatype cart_request = Add request int | Remove request int

fun serve :: "cart_request \<Rightarrow> response view" where
  "serve (Add request i) = add_to_cart request i"
| "serve (Remove request i) = remove_from_cart request i"

fun run :: "cart_request list \<Rightarrow> world \<Rightarrow> world" where
  "run [] w = w"
| "run (x # xs) w = run xs (snd (serve x w))"

definition quantities_positive :: "world \<Rightarrow> bool" where
  "quantities_positive w = list_all (\<lambda>(k, it). 1 \<le> item_quantity it) (cart_of w)"

fun supplied_positive :: "cart_request \<Rightarrow> bool" where
  "supplied_positive (Add request i) =
     (case GET_quantity request of Spells n \<Rightarrow> 1 \<le> n | _ \<Rightarrow> True)"
| "supplied_positive (Remove request i) = True"

text \<open>
  The amount of one cart line, \<^verbatim>\<open>float(item['price']) * item['quantity']\<close>, when the
  quantity converts to a float; the cart with every line's amount written into its
  \<^verbatim>\<open>'total'\<close>; the sum of floats from the left, starting at 0, as \<^verbatim>\<open>total += ...\<close>
  computes it.
\<close>

definition line_total :: "item \<Rightarrow> float64" where
  "line_total it =
     fmul (float_of_decimal (item_price it)) (round_float (of_int (item_quantity it)))"

definition with_totals :: "cart \<Rightarrow> cart" where
  "with_totals c = map (\<lambda>(k, it). (k, it\<lparr>item_total := Some (line_total it)\<rparr>)) c"

definition float_sum :: "float64 list \<Rightarrow> float64" where
  "float_sum xs = foldl fadd (Finite 0) xs"

text \<open>The key and the three fields that \<^verbatim>\<open>add_to_cart\<close> stores, entry by entry.\<close>

definition stored_fields :: "cart \<Rightarrow> (int \<times> string \<times> decimal \<times> int) list" where
  "stored_fields c = map (\<lambda>(k, it). (k, item_name it, item_price it, item_quantity it)) c"

text \<open>No quantity of the cart is too large to convert to a float.\<close>

definition representable :: "cart \<Rightarrow> bool" where
  "representable c = list_all (\<lambda>(k, it). float_of_int (item_quantity it) \<noteq> Inl OverflowError) c"
















section \<open>Example data\<close>

definition example_item :: "string \<Rightarrow> int \<Rightarrow> int \<Rightarrow> item" where
  "example_item n c q = \<lparr>item_name = n, item_price = Hundredths c, item_quantity = q, item_total = None\<rparr>"

definition example_request :: request where
  "example_request = \<lparr>request_method = ''GET'', user = None, GET_quantity = Missing,
     GET_status = None, POST = (\<lambda>k. None), now = 100\<rparr>"

definition example_order :: "int \<Rightarrow> string \<Rightarrow> nat \<Rightarrow> order" where
  "example_order i s t = \<lparr>order_id = i, order_customer = 1, order_products = {},
     total_amount = Hundredths 0, status = s, created_at = t\<rparr>"

definition example_cart :: cart where
  "example_cart = [(1, example_item ''A'' 1000 2), (2, example_item ''B'' 500 1)]"

definition example_world :: world where
  "example_world = \<lparr>products = [], customers = [], customer_seq = 1,
     orders = [example_order 1 ''pending'' 10, example_order 2 ''shipped'' 20,
               example_order 3 ''pending'' 30],
     order_seq = 4,
     session = \<lparr>session_cart = Some example_cart, modified = False\<rparr>,
     messages = []\<rparr>"

definition example_product :: "int \<Rightarrow> string \<Rightarrow> int \<Rightarrow> int \<Rightarrow> product" where
  "example_product i n c s = \<lparr>product_id = i, product_name = n, product_price = Hundredths c,
     product_description = [], product_stock = s, product_category = None\<rparr>"

definition example_products :: "product list" where
  "example_products = [example_product 1 ''A'' 1200 3, example_product 2 ''B'' 500 1]"

definition example_shop :: "cart option \<Rightarrow> world" where
  "example_shop c = \<lparr>products = example_products, customers = [], customer_seq = 1,
     orders = [], order_seq = 1, session = \<lparr>session_cart = c, modified = False\<rparr>,
     messages = []\<rparr>"







section \<open>Properties of the cart views\<close>

subsection \<open>Evaluating floats\<close>

lemmas float_eval = round_float_def floor_log2_def pow2_def round_half_even_def bitlen_def
  compute_floorlog float_of_int_def float_of_decimal_def Let_def

lemma round_float_small:
  "round_float 1 = Finite 1" "round_float 2 = Finite 2" "round_float 3 = Finite 3"
  "round_float 5 = Finite 5" "round_float 10 = Finite 10" "round_float 20 = Finite 20"
  "round_float 25 = Finite 25"
  by (simp_all add: float_eval)

subsection \<open>The exponent found by the rounding, and the integers that convert\<close>

text \<open>
  \<open>floor_log2\<close> finds the binary exponent of a positive rational, so \<open>round_float\<close>
  rounds at the spacing of the binade of its argument; an integer below \<open>2 ^ 1023\<close> in
  magnitude converts to a float, so a cart whose quantities are below that bound is
  \<open>representable\<close>.
\<close>

lemma pow2_powi: "pow2 e = 2 powi e"
  by (simp add: pow2_def power_int_def power_one_over inverse_eq_divide)

lemma of_int_less_pow2:
  assumes "0 < p"
  shows "2 powi (bitlen p - 1) \<le> (of_int p :: rat)" "(of_int p :: rat) < 2 powi (bitlen p)"
proof -
  from bitlen_bounds [OF assms] have b: "2 ^ nat (bitlen p - 1) \<le> p" "p < 2 ^ nat (bitlen p)"
    by simp_all
  from assms have n: "1 \<le> bitlen p" by (auto simp: bitlen_alt_def)
  have "(of_int (2 ^ nat (bitlen p - 1)) :: rat) \<le> of_int p" using b(1) by (simp only: of_int_le_iff)
  then show "2 powi (bitlen p - 1) \<le> (of_int p :: rat)"
    using n by (simp add: power_int_def)
  have "(of_int p :: rat) < of_int (2 ^ nat (bitlen p))" using b(2) by (simp only: of_int_less_iff)
  then show "(of_int p :: rat) < 2 powi (bitlen p)"
    using n by (simp add: power_int_def)
qed

lemma floor_log2_bounds:
  assumes "0 < a"
  shows "pow2 (floor_log2 a) \<le> a" and "a < pow2 (floor_log2 a + 1)"
proof -
  obtain p d where q: "quotient_of a = (p, d)" by (cases "quotient_of a")
  then have d: "0 < d" and a: "a = of_int p / of_int d"
    by (simp_all add: quotient_of_denom_pos quotient_of_div)
  from assms a d have p: "0 < p" by (simp add: zero_less_divide_iff)
  define k where "k = bitlen p - bitlen d"
  note bp = of_int_less_pow2 [OF p] and bd = of_int_less_pow2 [OF d]
  have dpos: "(0::rat) < of_int d" using d by simp
  have "2 powi (k - 1) = (2 powi (bitlen p - 1) :: rat) / 2 powi (bitlen d)"
    by (simp add: k_def power_int_diff)
  also have "\<dots> \<le> of_int p / 2 powi (bitlen d)"
    using bp(1) by (simp add: divide_right_mono)
  also have "\<dots> \<le> of_int p / of_int d"
    using bd(2) p dpos by (simp add: frac_le)
  finally have lo: "2 powi (k - 1) \<le> a" by (simp add: a)
  have "a = of_int p / of_int d" by (rule a)
  also have "\<dots> < 2 powi (bitlen p) / of_int d"
    using bp(2) dpos by (simp add: divide_strict_right_mono)
  also have "\<dots> \<le> 2 powi (bitlen p) / 2 powi (bitlen d - 1)"
    using bd(1) by (simp add: frac_le)
  also have "\<dots> = 2 powi (bitlen p - (bitlen d - 1))"
    by (subst power_int_diff) simp_all
  also have "bitlen p - (bitlen d - 1) = k + 1"
    by (simp add: k_def)
  finally have hi: "a < 2 powi (k + 1)" .
  have fl: "floor_log2 a = (if pow2 k \<le> a then k else k - 1)"
    by (simp add: floor_log2_def q k_def Let_def)
  show "pow2 (floor_log2 a) \<le> a"
    using lo by (simp add: fl pow2_powi)
  show "a < pow2 (floor_log2 a + 1)"
    using hi by (auto simp: fl pow2_powi)
qed

lemma floor_log2_less:
  assumes "0 < a" and "a < pow2 n"
  shows "floor_log2 a < n"
proof (rule ccontr)
  assume "\<not> floor_log2 a < n"
  then have "n \<le> floor_log2 a" by simp
  then have "(2::rat) powi n \<le> 2 powi floor_log2 a"
    by (intro power_int_increasing) simp_all
  with floor_log2_bounds(1) [OF assms(1)] assms(2) show False
    by (simp add: pow2_powi)
qed

lemma round_float_finite:
  assumes "\<bar>q\<bar> < pow2 1023"
  shows "\<exists>r. round_float q = Finite r"
proof (cases "q = 0")
  case True
  then show ?thesis by (simp add: round_float_def)
next
  case False
  then have "0 < \<bar>q\<bar>" by simp
  from floor_log2_less [OF this assms] have "max (floor_log2 \<bar>q\<bar>) (- 1022) < 1023" by simp
  then show ?thesis
    using False by (auto simp: round_float_def Let_def)
qed

lemma float_of_int_bounded:
  assumes "\<bar>n\<bar> < 2 ^ 1023"
  shows "float_of_int n = Inr (round_float (of_int n))"
proof -
  have "\<bar>of_int n :: rat\<bar> < of_int (2 ^ 1023)"
    using assms by (simp only: of_int_abs [symmetric] of_int_less_iff)
  then have "\<bar>of_int n :: rat\<bar> < pow2 1023" by (simp add: pow2_def)
  from round_float_finite [OF this] show ?thesis
    by (auto simp: float_of_int_def)
qed

lemma representable_bounded:
  "list_all (\<lambda>(k, it). \<bar>item_quantity it\<bar> < 2 ^ 1023) c \<Longrightarrow> representable c"
  by (induction c) (auto simp: representable_def float_of_int_bounded)

subsection \<open>The error of one rounding\<close>










subsection \<open>Removing from the cart\<close>

lemma del_key_idem: "del_key k (del_key k c) = del_key k c"
  by (simp add: del_key_def)

lemma del_key_absent: "map_of c k = None \<Longrightarrow> del_key k c = c"
  by (induction c) (auto simp: del_key_def split: if_splits)

lemma remove_from_cart_cart:
  "session_cart (session (snd (remove_from_cart request i w))) =
     map_option (del_key i) (session_cart (session w))"
  by (auto simp: remove_from_cart_def del_key_absent split: option.splits)

lemma remove_from_cart_result: "fst (remove_from_cart request i w) = Inr (Redirect ''cart'' None)"
  by (auto simp: remove_from_cart_def split: option.splits)

lemma remove_from_cart_absent:
  "session_cart (session w) = None \<or> (\<exists>c. session_cart (session w) = Some c \<and> map_of c i = None) \<Longrightarrow>
   remove_from_cart request i w = (Inr (Redirect ''cart'' None), w)"
  by (auto simp: remove_from_cart_def split: option.splits)

text \<open>
  Claim C8. \<^verbatim>\<open>remove_from_cart\<close> never fails; when the product is not a key of the
  cart (or the session has no cart) it leaves everything as it was; when the key is
  present the entry is deleted and the other entries stay; removing the same
  product a second time gives the same cart as removing it once.
\<close>

theorem remove_from_cart_idempotent:
  "fst (remove_from_cart request i w) = Inr (Redirect ''cart'' None) \<and>
   (session_cart (session w) = None \<or>
      (\<exists>c. session_cart (session w) = Some c \<and> i \<notin> fst ` set c) \<longrightarrow>
    remove_from_cart request i w = (Inr (Redirect ''cart'' None), w)) \<and>
   (\<forall>c. session_cart (session w) = Some c \<longrightarrow>
      session_cart (session (snd (remove_from_cart request i w))) =
        Some (filter (\<lambda>(k, it). k \<noteq> i) c)) \<and>
   session_cart (session (snd (remove_from_cart request' i (snd (remove_from_cart request i w))))) =
     session_cart (session (snd (remove_from_cart request i w)))"
proof (intro conjI impI allI)
  show "fst (remove_from_cart request i w) = Inr (Redirect ''cart'' None)"
    by (rule remove_from_cart_result)
next
  assume "session_cart (session w) = None \<or>
      (\<exists>c. session_cart (session w) = Some c \<and> i \<notin> fst ` set c)"
  then show "remove_from_cart request i w = (Inr (Redirect ''cart'' None), w)"
    by (intro remove_from_cart_absent) (auto simp: map_of_eq_None_iff)
next
  fix c assume "session_cart (session w) = Some c"
  then show "session_cart (session (snd (remove_from_cart request i w))) =
        Some (filter (\<lambda>(k, it). k \<noteq> i) c)"
    by (simp add: remove_from_cart_cart del_key_def)
next
  show "session_cart (session (snd (remove_from_cart request' i (snd (remove_from_cart request i w))))) =
     session_cart (session (snd (remove_from_cart request i w)))"
    by (simp add: remove_from_cart_cart option.map_comp comp_def del_key_idem)
qed

theorem remove_from_cart_idempotent_witness:
  "remove_from_cart example_request 5 example_world = (Inr (Redirect ''cart'' None), example_world) \<and>
   session_cart (session (snd (remove_from_cart example_request 1 example_world))) =
     Some [(2, example_item ''B'' 500 1)] \<and>
   session_cart (session (snd (remove_from_cart example_request 1
       (snd (remove_from_cart example_request 1 example_world))))) =
     Some [(2, example_item ''B'' 500 1)]"
  using remove_from_cart_idempotent [of example_request 5 example_world example_request]
    remove_from_cart_idempotent [of example_request 1 example_world example_request]
  by (simp add: example_world_def example_cart_def)

subsection \<open>Adding to the cart\<close>

lemma add_to_cart_ok:
  assumes "find (\<lambda>r. product_id r = i) (products w) = Some p"
    and "int_param (GET_quantity request) 1 = Inr q"
  shows "fst (add_to_cart request i w) = Inr (Redirect ''cart'' None)"
    and "cart_of (snd (add_to_cart request i w)) =
           (if in_cart i (cart_of w) then add_quantity i q (cart_of w)
                 else cart_of w @ [(i, snapshot p q)])"
    and "products (snd (add_to_cart request i w)) = products w"
  using assms
  by (cases "session_cart (session w)";
      simp add: add_to_cart_def get_object_or_404_def cart_of_def snapshot_def Let_def)+

lemma add_to_cart_fail:
  assumes "fst (add_to_cart request i w) = Inl e"
  shows "cart_of (snd (add_to_cart request i w)) = cart_of w"
  using assms
  by (cases "session_cart (session w)";
      auto simp: add_to_cart_def get_object_or_404_def cart_of_def Let_def
      split: option.splits sum.splits)

lemma map_of_add_quantity:
  "map_of (add_quantity i q c) k =
     (if k = i then map_option (\<lambda>it. it\<lparr>item_quantity := item_quantity it + q\<rparr>) (map_of c k)
      else map_of c k)"
  by (induction c) (auto simp: add_quantity_def)

lemma keys_add_quantity: "map fst (add_quantity i q c) = map fst c"
  by (induction c) (auto simp: add_quantity_def)

lemma count_key_distinct:
  "distinct (map fst c) \<Longrightarrow> length (filter (\<lambda>(k, it). k = i) c) = (if in_cart i c then 1 else 0)"
proof (induction c)
  case Nil
  then show ?case by (simp add: in_cart_def)
next
  case (Cons a c)
  obtain k it where a: "a = (k, it)" by (cases a)
  from Cons show ?case
    by (auto simp: a in_cart_def map_of_eq_None_iff image_iff)
qed

lemma count_key_add_quantity:
  "length (filter (\<lambda>(k, it). k = i) (add_quantity j q c)) = length (filter (\<lambda>(k, it). k = i) c)"
  by (induction c) (auto simp: add_quantity_def split: if_splits)

lemma in_cart_add_quantity: "in_cart k (add_quantity i q c) = in_cart k c"
  by (simp add: in_cart_def map_of_add_quantity)

lemma add_quantity_new: "\<not> in_cart i c \<Longrightarrow> add_quantity i q2 (c @ [(i, snapshot p q1)]) = c @ [(i, snapshot p (q1 + q2))]"
  by (induction c) (auto simp: add_quantity_def snapshot_def in_cart_def split: if_splits)

text \<open>
  Claim C5, amended. For a product of the catalog and two requests whose quantity
  parameters give the integers \<open>q1\<close> and \<open>q2\<close> (a missing parameter gives 1), two
  successive calls of \<^verbatim>\<open>add_to_cart\<close> leave exactly one entry for the product, and its
  quantity is the quantity the product had in the cart before (0 when it was not there)
  plus \<open>q1 + q2\<close>. When the product was not in the cart, the first call appends an entry
  with the product's current name and price and the quantity \<open>q1\<close>. (A cart is a
  dictionary: its keys are distinct.)
\<close>

theorem add_to_cart_twice:
  assumes "find (\<lambda>r. product_id r = i) (products w) = Some p"
    and "int_param (GET_quantity request1) 1 = Inr q1"
    and "int_param (GET_quantity request2) 1 = Inr q2"
    and "distinct (map fst (cart_of w))"
  shows "length (filter (\<lambda>(k, it). k = i)
           (cart_of (snd (add_to_cart request2 i (snd (add_to_cart request1 i w)))))) = 1 \<and>
         map_option item_quantity
           (map_of (cart_of (snd (add_to_cart request2 i (snd (add_to_cart request1 i w))))) i) =
           Some ((case map_of (cart_of w) i of None \<Rightarrow> 0 | Some it \<Rightarrow> item_quantity it) + q1 + q2) \<and>
         (map_of (cart_of w) i = None \<longrightarrow>
            cart_of (snd (add_to_cart request1 i w)) = cart_of w @ [(i, snapshot p q1)] \<and>
            cart_of (snd (add_to_cart request2 i (snd (add_to_cart request1 i w)))) =
              cart_of w @ [(i, snapshot p (q1 + q2))])"
proof -
  let ?w1 = "snd (add_to_cart request1 i w)"
  let ?w2 = "snd (add_to_cart request2 i ?w1)"
  have p1: "find (\<lambda>r. product_id r = i) (products ?w1) = Some p"
    using add_to_cart_ok(3) [OF assms(1,2)] assms(1) by simp
  note c1 = add_to_cart_ok(2) [OF assms(1,2)]
  note c2 = add_to_cart_ok(2) [OF p1 assms(3)]
  show ?thesis
  proof (cases "in_cart i (cart_of w)")
    case True
    then obtain it where it: "map_of (cart_of w) i = Some it" by (auto simp: in_cart_def)
    have 1: "cart_of ?w1 = add_quantity i q1 (cart_of w)" using c1 True by simp
    have 2: "cart_of ?w2 = add_quantity i q2 (add_quantity i q1 (cart_of w))"
      using c2 True by (simp add: 1 in_cart_add_quantity)
    show ?thesis
      using True assms(4)
      by (simp add: 2 count_key_add_quantity count_key_distinct map_of_add_quantity it)
  next
    case False
    then have none: "map_of (cart_of w) i = None" by (simp add: in_cart_def)
    have 1: "cart_of ?w1 = cart_of w @ [(i, snapshot p q1)]" using c1 False by simp
    have in1: "in_cart i (cart_of ?w1)" by (simp add: 1 in_cart_def none)
    have 2: "cart_of ?w2 = cart_of w @ [(i, snapshot p (q1 + q2))]"
      using c2 in1 by (simp add: 1 add_quantity_new [OF False])
    have cnt: "length (filter (\<lambda>(k, it). k = i) (cart_of w)) = 0"
      using count_key_distinct [OF assms(4), of i] False by simp
    show ?thesis
      using cnt by (simp add: 1 2 none snapshot_def map_add_def)
  qed
qed

lemma example_find_A:
  "find (\<lambda>r. product_id r = 1) (products (example_shop c)) = Some (hd example_products)"
  by (simp add: example_shop_def example_products_def example_product_def)

theorem add_to_cart_twice_witness:
  "cart_of (snd (add_to_cart (example_request\<lparr>GET_quantity := Spells 3\<rparr>) 1
      (snd (add_to_cart (example_request\<lparr>GET_quantity := Spells 2\<rparr>) 1 (example_shop None))))) =
   [(1, example_item ''A'' 1200 5)]"
  using add_to_cart_twice [OF example_find_A, of "example_request\<lparr>GET_quantity := Spells 2\<rparr>" 2
      "example_request\<lparr>GET_quantity := Spells 3\<rparr>" 3 None]
  by (simp add: example_shop_def cart_of_def snapshot_def example_products_def example_product_def example_item_def)

text \<open>
  Claim C5 as stated fails for a session that already holds the product: with one unit
  of product 1 in the cart, adding 2 and then 3 gives the quantity 6, not \<open>2 + 3\<close>.
\<close>

theorem add_to_cart_twice_counterexample:
  "map_option item_quantity (map_of (cart_of (snd (add_to_cart (example_request\<lparr>GET_quantity := Spells 3\<rparr>) 1
      (snd (add_to_cart (example_request\<lparr>GET_quantity := Spells 2\<rparr>) 1
         (example_shop (Some [(1, example_item ''A'' 1200 1)]))))))) 1) = Some 6 \<and> (6::int) \<noteq> 2 + 3"
  by (simp add: add_to_cart_def get_object_or_404_def example_shop_def example_products_def example_product_def
      in_cart_def add_quantity_def cart_of_def example_item_def)

subsection \<open>The quantities of the cart\<close>

lemma positive_add_quantity:
  "list_all (\<lambda>(k, it). 1 \<le> item_quantity it) c \<Longrightarrow> 1 \<le> q \<Longrightarrow>
   list_all (\<lambda>(k, it). 1 \<le> item_quantity it) (add_quantity i q c)"
  by (induction c) (auto simp: add_quantity_def split: if_splits)

lemma positive_del_key:
  "list_all (\<lambda>(k, it). 1 \<le> item_quantity it) c \<Longrightarrow>
   list_all (\<lambda>(k, it). 1 \<le> item_quantity it) (del_key i c)"
  by (induction c) (auto simp: del_key_def)

lemma cart_of_remove: "cart_of (snd (remove_from_cart request i w)) = del_key i (cart_of w)"
  by (auto simp: remove_from_cart_def cart_of_def del_key_absent split: option.splits)

lemma serve_positive:
  assumes "quantities_positive w" and "supplied_positive x"
  shows "quantities_positive (snd (serve x w))"
proof (cases x)
  case (Add request i)
  show ?thesis
  proof (cases "fst (add_to_cart request i w)")
    case (Inl e)
    from add_to_cart_fail [OF Inl] assms(1) show ?thesis
      by (simp add: Add quantities_positive_def)
  next
    case (Inr r)
    then obtain p q where p: "find (\<lambda>r. product_id r = i) (products w) = Some p"
      and q: "int_param (GET_quantity request) 1 = Inr q"
      by (cases "session_cart (session w)";
          auto simp: add_to_cart_def get_object_or_404_def Let_def split: option.splits sum.splits)
    from q assms(2) have "1 \<le> q"
      by (cases "GET_quantity request") (auto simp: Add)
    with assms(1) show ?thesis
      by (simp add: Add quantities_positive_def add_to_cart_ok(2) [OF p q] positive_add_quantity
          snapshot_def)
  qed
next
  case (Remove request i)
  with assms(1) show ?thesis
    by (simp add: quantities_positive_def cart_of_remove positive_del_key)
qed

text \<open>
  Claim C6, amended. Every quantity in the cart is at least 1 after any sequence of
  \<^verbatim>\<open>add_to_cart\<close> and \<^verbatim>\<open>remove_from_cart\<close> requests in which every supplied
  quantity is at least 1 (or missing, or no integer at all: that request raises and adds
  nothing), provided the quantities were at least 1 before.
\<close>

theorem quantities_stay_positive:
  "quantities_positive w \<Longrightarrow> list_all supplied_positive ops \<Longrightarrow> quantities_positive (run ops w)"
  by (induction ops arbitrary: w) (auto simp: serve_positive)

theorem quantities_stay_positive_witness:
  "quantities_positive (example_shop None) \<and>
   list_all supplied_positive [Add (example_request\<lparr>GET_quantity := Spells 2\<rparr>) 1, Add example_request 2, Remove example_request 1] \<and>
   quantities_positive (run [Add (example_request\<lparr>GET_quantity := Spells 2\<rparr>) 1, Add example_request 2, Remove example_request 1] (example_shop None))"
proof -
  have a: "quantities_positive (example_shop None)"
    by (simp add: quantities_positive_def cart_of_def example_shop_def)
  have b: "list_all supplied_positive [Add (example_request\<lparr>GET_quantity := Spells 2\<rparr>) 1, Add example_request 2, Remove example_request 1]"
    by (simp add: example_request_def)
  from quantities_stay_positive [OF a b] a b show ?thesis by simp
qed

text \<open>
  Claim C6 as stated fails: \<^verbatim>\<open>add_to_cart\<close> takes the quantity parameter as it is, so
  \<^verbatim>\<open>?quantity=-5\<close> on an empty cart leaves an entry with the quantity \<open>- 5\<close>.
\<close>

theorem quantity_not_positive_counterexample:
  "supplied_positive (Add (example_request\<lparr>GET_quantity := Spells (- 5)\<rparr>) 1) = False \<and>
   cart_of (run [Add (example_request\<lparr>GET_quantity := Spells (- 5)\<rparr>) 1] (example_shop None)) =
     [(1, example_item ''A'' 1200 (- 5))] \<and>
   \<not> quantities_positive (run [Add (example_request\<lparr>GET_quantity := Spells (- 5)\<rparr>) 1] (example_shop None))"
  by (simp add: add_to_cart_def get_object_or_404_def example_shop_def example_products_def example_product_def
      in_cart_def add_quantity_def cart_of_def example_item_def quantities_positive_def)

subsection \<open>Viewing the cart\<close>

lemma float_of_int_cases:
  "float_of_int n = Inl OverflowError \<or> float_of_int n = Inr (round_float (of_int n))"
  by (simp add: float_of_int_def split: float64.splits)

lemma price_times_quantity_ok:
  "float_of_int (item_quantity it) \<noteq> Inl OverflowError \<Longrightarrow>
   price_times_quantity it = Inr (line_total it)"
  using float_of_int_cases [of "item_quantity it"]
  by (auto simp: price_times_quantity_def line_total_def)

lemma cart_view_loop_fields:
  "stored_fields (fst (cart_view_loop c tot items)) = stored_fields c"
  by (induction c arbitrary: tot items)
     (auto simp: stored_fields_def Let_def case_prod_beta split: sum.splits)

lemma cart_view_loop_ok:
  "representable c \<Longrightarrow>
   cart_view_loop c tot items =
     (with_totals c, Inr (items @ with_totals c, foldl fadd tot (map (line_total \<circ> snd) c)))"
  by (induction c arbitrary: tot items)
     (auto simp: representable_def with_totals_def price_times_quantity_ok Let_def)

text \<open>
  Claim C7, amended. \<^verbatim>\<open>cart_view\<close> changes nothing but the cart entries of the session
  it was given: the tables, the messages and the \<open>modified\<close> flag stay, and so do the
  key, name, price and quantity of every entry, in their order. When no quantity is
  too large for a float (\<open>representable\<close>: every quantity below \<open>2 ^ 1023\<close> in
  magnitude is not) it renders, for every entry, the entry with its line total
  \<^verbatim>\<open>float(price) * quantity\<close>, and the float sum of the line totals; it writes
  each line total into the \<^verbatim>\<open>'total'\<close> field of the session's own entry.
\<close>

theorem cart_view_effect:
  "(\<exists>c'. snd (cart_view request w) = w\<lparr>session := (session w)\<lparr>session_cart := c'\<rparr>\<rparr> \<and>
         map_option stored_fields c' = map_option stored_fields (session_cart (session w))) \<and>
   (session_cart (session w) = None \<longrightarrow>
      cart_view request w = (Inr (Render ''shop/cart.html'' (Cart_context [] (Finite 0))), w)) \<and>
   (\<forall>c. session_cart (session w) = Some c \<and> representable c \<longrightarrow>
      cart_view request w =
        (Inr (Render ''shop/cart.html''
           (Cart_context (with_totals c) (float_sum (map (line_total \<circ> snd) c)))),
         w\<lparr>session := (session w)\<lparr>session_cart := Some (with_totals c)\<rparr>\<rparr>))"
proof (intro conjI allI impI)
  show "\<exists>c'. snd (cart_view request w) = w\<lparr>session := (session w)\<lparr>session_cart := c'\<rparr>\<rparr> \<and>
         map_option stored_fields c' = map_option stored_fields (session_cart (session w))"
  proof (cases "session_cart (session w)")
    case None
    then have "snd (cart_view request w) = w\<lparr>session := (session w)\<lparr>session_cart := None\<rparr>\<rparr>"
      by (simp add: cart_view_def)
    with None show ?thesis by auto
  next
    case (Some c)
    have "snd (cart_view request w) =
        w\<lparr>session := (session w)\<lparr>session_cart := Some (fst (cart_view_loop c (Finite 0) []))\<rparr>\<rparr>"
      by (simp add: cart_view_def Some Let_def split: prod.splits sum.splits)
    with Some cart_view_loop_fields [of c "Finite 0" "[]"] show ?thesis by auto
  qed
next
  assume "session_cart (session w) = None"
  then show "cart_view request w = (Inr (Render ''shop/cart.html'' (Cart_context [] (Finite 0))), w)"
    by (simp add: cart_view_def)
next
  fix c assume "session_cart (session w) = Some c \<and> representable c"
  then show "cart_view request w =
        (Inr (Render ''shop/cart.html''
           (Cart_context (with_totals c) (float_sum (map (line_total \<circ> snd) c)))),
         w\<lparr>session := (session w)\<lparr>session_cart := Some (with_totals c)\<rparr>\<rparr>)"
    by (simp add: cart_view_def cart_view_loop_ok float_sum_def Let_def)
qed

lemma example_line_totals:
  "line_total (example_item ''A'' 1000 2) = Finite 20"
  "line_total (example_item ''B'' 500 1) = Finite 5"
  by (simp_all add: line_total_def example_item_def float_of_decimal_def round_float_small)

lemma example_representable:
  "representable example_cart"
  by (simp add: representable_def example_cart_def example_item_def float_of_int_def round_float_small)

theorem cart_view_effect_witness:
  "fst (cart_view example_request example_world) =
     Inr (Render ''shop/cart.html''
       (Cart_context [(1, (example_item ''A'' 1000 2)\<lparr>item_total := Some (Finite 20)\<rparr>),
                      (2, (example_item ''B'' 500 1)\<lparr>item_total := Some (Finite 5)\<rparr>)] (Finite 25)))"
proof -
  have c: "session_cart (session example_world) =
      Some example_cart"
    by (simp add: example_world_def)
  from cart_view_effect [of example_request example_world] c example_representable
  have "fst (cart_view example_request example_world) =
     Inr (Render ''shop/cart.html''
       (Cart_context (with_totals example_cart)
          (float_sum (map (line_total \<circ> snd) example_cart))))"
    by simp
  then show ?thesis
    by (simp add: with_totals_def float_sum_def example_cart_def example_line_totals round_float_small)
qed

text \<open>
  Claim C7 as stated fails: \<^verbatim>\<open>item['total'] = ...\<close> assigns into the dictionaries of
  \<^verbatim>\<open>request.session['cart']\<close>, so after the call the entries of the session's cart
  have a field they did not have before.
\<close>

theorem cart_view_writes_total_counterexample:
  "session_cart (session (snd (cart_view example_request example_world))) =
     Some [(1, (example_item ''A'' 1000 2)\<lparr>item_total := Some (Finite 20)\<rparr>),
           (2, (example_item ''B'' 500 1)\<lparr>item_total := Some (Finite 5)\<rparr>)] \<and>
   session_cart (session (snd (cart_view example_request example_world))) \<noteq>
     session_cart (session example_world)"
proof -
  have c: "session_cart (session example_world) =
      Some example_cart"
    by (simp add: example_world_def)
  have "cart_view_loop example_cart (Finite 0) [] =
     (with_totals example_cart,
      Inr ([] @ with_totals example_cart,
           foldl fadd (Finite 0) (map (line_total \<circ> snd) example_cart)))"
    by (rule cart_view_loop_ok [OF example_representable])
  then have "session_cart (session (snd (cart_view example_request example_world))) =
      Some (with_totals example_cart)"
    by (simp add: cart_view_def c Let_def)
  then show ?thesis
    by (simp add: c with_totals_def example_cart_def example_line_totals)
       (simp add: example_item_def)
qed

section \<open>Properties of checkout\<close>

subsection \<open>The decimal column\<close>










subsection \<open>The total of a moderate cart\<close>







subsection \<open>Saved rows and the loop over the keys of the cart\<close>














subsection \<open>Placing the order\<close>























subsection \<open>The order and its total\<close>




















subsection \<open>The stock\<close>








subsection \<open>A product that is missing\<close>












subsection \<open>An empty cart\<close>

text \<open>
  Claim C4, amended. With an empty cart (or none), \<^verbatim>\<open>checkout\<close> changes no order, no
  product, no customer and not the session. For a logged-in user it queues the warning
  "Your cart is empty!" and redirects to \<^verbatim>\<open>home\<close>, the catalog; an anonymous
  request is redirected to the login page by \<^verbatim>\<open>login_required\<close>, with no message.
\<close>

theorem checkout_empty_cart:
  "cart_of w = [] \<longrightarrow>
     orders (snd (checkout request w)) = orders w \<and>
     products (snd (checkout request w)) = products w \<and>
     customers (snd (checkout request w)) = customers w \<and>
     session (snd (checkout request w)) = session w \<and>
     (user request \<noteq> None \<longrightarrow>
        checkout request w =
          (Inr (Redirect ''home'' None),
           w\<lparr>messages := messages w @ [(WARNING, ''Your cart is empty!'')]\<rparr>)) \<and>
     (user request = None \<longrightarrow> checkout request w = (Inr Redirect_to_login, w))"
  by (cases "user request")
     (auto simp: checkout_def login_required_def checkout_body_def cart_of_def
      split: option.splits)

theorem checkout_empty_cart_witness:
  "cart_of (example_shop None) = [] \<and>
   checkout (example_request\<lparr>user := Some 7\<rparr>) (example_shop None) =
     (Inr (Redirect ''home'' None),
      (example_shop None)\<lparr>messages := [(WARNING, ''Your cart is empty!'')]\<rparr>)"
proof -
  have c: "cart_of (example_shop None) = []" by (simp add: cart_of_def example_shop_def)
  have m: "messages (example_shop None) = []" by (simp add: example_shop_def)
  from checkout_empty_cart [of "example_shop None" "example_request\<lparr>user := Some 7\<rparr>"] c m
  show ?thesis by simp
qed

text \<open>
  Claim C4 as stated fails for an anonymous session with an empty cart: the response is
  the redirect to the login page, not the one to the catalog, and no cart-empty message
  is queued.
\<close>

theorem checkout_anonymous_counterexample:
  "cart_of (example_shop None) = [] \<and> user example_request = None \<and>
   checkout example_request (example_shop None) = (Inr Redirect_to_login, example_shop None) \<and>
   fst (checkout example_request (example_shop None)) \<noteq> Inr (Redirect ''home'' None) \<and>
   messages (snd (checkout example_request (example_shop None))) = []"
  by (simp add: checkout_def login_required_def example_request_def cart_of_def example_shop_def)

section \<open>Properties of the order views\<close>

lemma order_confirmation_found:
  "find (\<lambda>r. order_id r = oid) (orders w) = Some ord \<Longrightarrow>
   order_confirmation request oid w = (Inr (Render ''shop/order_confirmation.html'' (Order_context ord)), w)"
  by (simp add: order_confirmation_def get_object_or_404_def)

text \<open>
  Claim C10. \<^verbatim>\<open>order_confirmation\<close> has no decorator and never reads the user of the
  request: for an order id that exists, every requester, the anonymous one (\<open>None\<close>)
  included, gets the page of the same order, and nothing changes.
\<close>

theorem order_confirmation_ignores_user:
  assumes "oid \<in> order_id ` set (orders w)"
  shows "\<exists>ord. ord \<in> set (orders w) \<and> order_id ord = oid \<and>
           (\<forall>u. order_confirmation (request\<lparr>user := u\<rparr>) oid w =
                  (Inr (Render ''shop/order_confirmation.html'' (Order_context ord)), w))"
proof -
  from assms have "\<exists>x. x \<in> set (orders w) \<and> order_id x = oid" by auto
  then have "find (\<lambda>r. order_id r = oid) (orders w) \<noteq> None"
    by (simp add: find_None_iff)
  then obtain ord where f: "find (\<lambda>r. order_id r = oid) (orders w) = Some ord" by auto
  then have "ord \<in> set (orders w)" "order_id ord = oid"
    by (auto simp: find_Some_iff)
  with order_confirmation_found [OF f] show ?thesis by blast
qed

theorem order_confirmation_ignores_user_witness:
  "2 \<in> order_id ` set (orders example_world) \<and>
   order_confirmation (example_request\<lparr>user := None\<rparr>) 2 example_world =
     order_confirmation (example_request\<lparr>user := Some 7\<rparr>) 2 example_world \<and>
   fst (order_confirmation (example_request\<lparr>user := None\<rparr>) 2 example_world) =
     Inr (Render ''shop/order_confirmation.html'' (Order_context (example_order 2 ''shipped'' 20)))"
proof -
  have h: "2 \<in> order_id ` set (orders example_world)"
    by (simp add: example_world_def example_order_def)
  from order_confirmation_ignores_user [OF h, of example_request]
  show ?thesis using h
    by (auto simp: example_world_def example_order_def)
qed

lemma sorted_desc: "sorted_wrt (\<lambda>a b. created_at b \<le> created_at a) (order_by_created_at_desc rows)"
proof -
  have "sorted (map (\<lambda>r. - int (created_at r)) (order_by_created_at_desc rows))"
    unfolding order_by_created_at_desc_def by (rule sorted_sort_key)
  then show ?thesis by (simp add: sorted_map sorted_wrt_iff_nth_less)
qed

text \<open>
  Claim C9. \<^verbatim>\<open>order_list\<close> shows the orders newest first; without a status (or with an
  empty one) all of them, with a status value exactly the orders that have this
  status, in the order they have in the unfiltered listing.
\<close>

theorem order_list_newest_first:
  "\<exists>rows. order_list request w =
          (Inr (Render ''shop/order/order_list.html''
                  (Order_list_context rows (GET_status request) status_choices)), w) \<and>
        sorted_wrt (\<lambda>a b. created_at b \<le> created_at a) rows \<and>
        (GET_status request = None \<or> GET_status request = Some [] \<longrightarrow> mset rows = mset (orders w)) \<and>
        (\<forall>s. GET_status request = Some s \<and> s \<noteq> [] \<longrightarrow>
            mset rows = filter_mset (\<lambda>r. status r = s) (mset (orders w)) \<and>
            rows = filter (\<lambda>r. status r = s) (order_by_created_at_desc (orders w)))"
  using sorted_desc[of "orders w"]
  by (auto simp: order_list_def Let_def order_by_created_at_desc_def sorted_wrt_filter split: option.splits)

theorem order_list_newest_first_witness:
  "fst (order_list (example_request\<lparr>GET_status := Some ''pending''\<rparr>) example_world) =
     Inr (Render ''shop/order/order_list.html''
       (Order_list_context [example_order 3 ''pending'' 30, example_order 1 ''pending'' 10]
          (Some ''pending'') status_choices))"
proof -
  have "order_by_created_at_desc (orders example_world) =
      [example_order 3 ''pending'' 30, example_order 2 ''shipped'' 20, example_order 1 ''pending'' 10]"
    by (simp add: order_by_created_at_desc_def example_world_def example_order_def)
  with order_list_newest_first [of "example_request\<lparr>GET_status := Some ''pending''\<rparr>" example_world]
  show ?thesis
    by (auto simp: example_order_def)
qed

end
